theory Spec2Isabelle
  imports Main "HOL-Library.AList"
begin

section \<open>Values, exceptions and the outside world\<close>

text \<open>
  The controller of \<^verbatim>\<open>gammad.py\<close> works on decoded JSON messages. Python's \<^verbatim>\<open>None\<close>
  is the JSON \<^verbatim>\<open>null\<close>; a dict is an association list with unique keys, read with
  \<open>map_of\<close> and written with \<open>AList.update\<close>. Numbers are integers.
\<close>

datatype json =
    JNull
  | JBool bool
  | JInt int
  | JStr string
  | JList "json list"
  | JObj "(string \<times> json) list"

type_synonym addr = "string \<times> nat"

text \<open>
  The exceptions that reach the three \<^verbatim>\<open>except\<close> clauses of \<^verbatim>\<open>datagramReceived\<close>:
  \<^verbatim>\<open>ProtocolError(command, message)\<close>, \<^verbatim>\<open>ImportError\<close>, and the other subclasses of
  \<^verbatim>\<open>Exception\<close>, each with the text that \<^verbatim>\<open>str(e)\<close> gives.
\<close>

datatype exn =
    ProtocolError string string
  | ImportError string
  | KeyError string
  | TypeError string
  | AttributeError string
  | AssertionError string
  | ValueError string
  | IndexError string
  | OtherError string

fun str_exn :: "exn \<Rightarrow> string" where
  "str_exn (ProtocolError cmd m) = m"
| "str_exn (ImportError m) = m"
| "str_exn (KeyError k) = [CHR 0x27] @ k @ [CHR 0x27]"
| "str_exn (TypeError m) = m"
| "str_exn (AttributeError m) = m"
| "str_exn (AssertionError m) = m"
| "str_exn (ValueError m) = m"
| "str_exn (IndexError m) = m"
| "str_exn (OtherError m) = m"

text \<open>
  Every call that leaves the controller is recorded, in order, as an event: a datagram
  written to the transport, an import of a plugin module, a call of a function of the
  bound plugin module (named by its module name), a call of \<^verbatim>\<open>gc_database\<close>.
\<close>

datatype event =
    TransportWrite addr json
  | ImportModule string
  | PluginFinalizePlugin string
  | PluginInitializePlugin string
  | PluginInitializeDetector string json
  | PluginInitializeSession string json
  | PluginFinalizeSession string json
  | DatabaseCreate json json
  | DatabaseClose "nat option"
  | DatabaseInsertSpectrum "nat option" json
  | DatabaseGetSyncSpectrums json "json list" int

text \<open>
  The plugin modules, \<^verbatim>\<open>gc_database\<close>, the file system and Python's own conversions are
  parameters of the model. Whether a call raises may depend on everything that happened
  before it: \<open>raises env t ev\<close> is the exception of the call \<open>ev\<close> made after the events
  \<open>t\<close>, or \<open>None\<close> when the call returns. The other fields give the values returned:
  the handle of \<^verbatim>\<open>database.create\<close>, \<^verbatim>\<open>f_bsize\<close> and \<^verbatim>\<open>f_bavail\<close> of \<^verbatim>\<open>os.statvfs('/')\<close>,
  the rows of \<^verbatim>\<open>database.getSyncSpectrums\<close>, the text of \<^verbatim>\<open>"%s" % v\<close> and of
  \<^verbatim>\<open>str(address)\<close>, and the results of \<^verbatim>\<open>list(v)\<close> and \<^verbatim>\<open>int(v)\<close>.
\<close>

record env =
  raises :: "event list \<Rightarrow> event \<Rightarrow> exn option"
  create_handle :: "event list \<Rightarrow> nat"
  statvfs :: "event list \<Rightarrow> int \<times> int"
  sync_rows :: "event list \<Rightarrow> json list list"
  str_of :: "json \<Rightarrow> string"
  str_addr :: "addr \<Rightarrow> string"
  py_list :: "json \<Rightarrow> exn + json list"
  py_int :: "json \<Rightarrow> exn + int"

section \<open>Python operations on decoded values\<close>

fun substring :: "string \<Rightarrow> string \<Rightarrow> bool" where
  "substring k [] = (k = [])"
| "substring k (x # xs) = (take (length k) (x # xs) = k \<or> substring k xs)"

text \<open>\<^verbatim>\<open>key in v\<close>: a key of a dict, an element of a list, a substring of a string.\<close>

fun py_contains :: "string \<Rightarrow> json \<Rightarrow> exn + bool" where
  "py_contains k (JObj d) = Inr (map_of d k \<noteq> None)"
| "py_contains k (JList xs) = Inr (List.member xs (JStr k))"
| "py_contains k (JStr s) = Inr (substring k s)"
| "py_contains k v = Inl (TypeError ''argument is not iterable'')"

text \<open>\<^verbatim>\<open>v[key]\<close> with a string key.\<close>

fun py_getitem :: "json \<Rightarrow> string \<Rightarrow> exn + json" where
  "py_getitem (JObj d) k = (case map_of d k of None \<Rightarrow> Inl (KeyError k) | Some v \<Rightarrow> Inr v)"
| "py_getitem (JList xs) k = Inl (TypeError ''list indices must be integers, not str'')"
| "py_getitem (JStr s) k = Inl (TypeError ''string indices must be integers'')"
| "py_getitem v k = Inl (TypeError ''object has no attribute __getitem__'')"

text \<open>\<^verbatim>\<open>v[key] = x\<close> with a string key; the value returned is the object after the assignment.\<close>

fun py_setitem :: "json \<Rightarrow> string \<Rightarrow> json \<Rightarrow> exn + json" where
  "py_setitem (JObj d) k x = Inr (JObj (AList.update k x d))"
| "py_setitem v k x = Inl (TypeError ''object does not support item assignment'')"

text \<open>\<^verbatim>\<open>"literal" + v\<close>: only a string can be appended to a string.\<close>

fun py_concat :: "string \<Rightarrow> json \<Rightarrow> exn + string" where
  "py_concat s (JStr t) = Inr (s @ t)"
| "py_concat s v = Inl (TypeError ''cannot concatenate str and non-str objects'')"

text \<open>\<^verbatim>\<open>s[i]\<close> on a row of the store.\<close>

definition row_field :: "json list \<Rightarrow> nat \<Rightarrow> exn + json" where
  "row_field s i = (if i < length s then Inr (s ! i) else Inl (IndexError ''index out of range''))"

section \<open>The controller\<close>

datatype SessionState = Ready | Busy

datatype SpectrumState = Ready | Busy

datatype DetectorState = Cold | Warm

text \<open>
  \<^verbatim>\<open>task.LoopingCall\<close>: the only thing the controller does with it is to start and to stop
  it, so the object is its \<^verbatim>\<open>running\<close> flag.
\<close>

datatype LoopingCall = LoopingCall (running: bool)

text \<open>
  The fields of \<^verbatim>\<open>Controller.__init__\<close> (the GPS thread apart), and two fields for what is
  outside the object: \<open>trace\<close>, the calls made so far, and \<open>in_flight\<close>, the number of
  acquisitions handed to \<^verbatim>\<open>threads.deferToThread\<close> whose callback has not run yet.
\<close>

record controller =
  client_address :: "addr option"
  detector_state :: DetectorState
  detector_data :: json
  session_args :: json
  session_loop :: "LoopingCall option"
  session_state :: SessionState
  spectrum_state :: SpectrumState
  spectrum_index :: int
  spectrum_failures :: int
  database_connection :: "nat option"
  plugin :: "string option"
  trace :: "event list"
  in_flight :: nat

definition init :: controller where
  "init = \<lparr> client_address = None, detector_state = Cold, detector_data = JNull,
      session_args = JNull, session_loop = None, session_state = SessionState.Ready,
      spectrum_state = SpectrumState.Ready, spectrum_index = 0, spectrum_failures = 0,
      database_connection = None, plugin = None, trace = [], in_flight = 0 \<rparr>"

subsection \<open>Statements that may raise\<close>

text \<open>
  A method takes the controller and returns it as it is when the method ends, with the
  value returned or the exception raised: what was assigned before a \<^verbatim>\<open>raise\<close> stays
  assigned.
\<close>

type_synonym 'a act = "controller \<Rightarrow> (exn + 'a) \<times> controller"

definition ret :: "'a \<Rightarrow> 'a act" where
  "ret v c = (Inr v, c)"

definition raise :: "exn \<Rightarrow> 'a act" where
  "raise e c = (Inl e, c)"

definition lift :: "exn + 'a \<Rightarrow> 'a act" where
  "lift r c = (r, c)"

definition modify :: "(controller \<Rightarrow> controller) \<Rightarrow> unit act" where
  "modify f c = (Inr (), f c)"

definition then_with :: "'a act \<Rightarrow> ('a \<Rightarrow> 'b act) \<Rightarrow> 'b act" where
  "then_with m f c = (case m c of (Inl e, c') \<Rightarrow> (Inl e, c') | (Inr v, c') \<Rightarrow> f v c')"

definition then_do :: "unit act \<Rightarrow> 'b act \<Rightarrow> 'b act" where
  "then_do m n = then_with m (\<lambda>_. n)"

text \<open>A call of a collaborator: recorded, then it returns or raises as \<open>env\<close> says.\<close>

definition call :: "env \<Rightarrow> event \<Rightarrow> unit act" where
  "call env ev c =
     (case raises env (trace c) ev of
        None \<Rightarrow> (Inr (), c\<lparr>trace := trace c @ [ev]\<rparr>)
      | Some e \<Rightarrow> (Inl e, c\<lparr>trace := trace c @ [ev]\<rparr>))"

subsection \<open>Responses\<close>

definition sendResponse :: "json \<Rightarrow> unit act" where
  "sendResponse msg c =
     (case client_address c of
        None \<Rightarrow> (Inr (), c)
      | Some a \<Rightarrow>
          (case py_getitem msg ''command'' of
             Inl e \<Rightarrow> (Inl e, c)
           | Inr _ \<Rightarrow> (Inr (), c\<lparr>trace := trace c @ [TransportWrite a msg]\<rparr>)))"

text \<open>
  \<^verbatim>\<open>msg['command'] = command\<close> changes the object that \<^verbatim>\<open>msg\<close> names. Where a field of the
  controller names the same object, the caller passes the assignment to that field as
  \<open>alias\<close>, and \<open>id\<close> where none does.
\<close>

definition sendResponseWithCommand ::
    "string \<Rightarrow> json \<Rightarrow> (json \<Rightarrow> controller \<Rightarrow> controller) \<Rightarrow> unit act" where
  "sendResponseWithCommand command msg alias =
     then_with (lift (py_setitem msg ''command'' (JStr command)))
       (\<lambda>msg'. then_do (modify (alias msg')) (sendResponse msg'))"

definition info :: "string \<Rightarrow> string \<Rightarrow> json" where
  "info command text = JObj [(''command'', JStr command), (''message'', JStr text)]"

definition sendResponseWithInfo :: "string \<Rightarrow> string \<Rightarrow> unit act" where
  "sendResponseWithInfo command text = sendResponse (info command text)"

subsection \<open>Plugins\<close>

text \<open>
  \<^verbatim>\<open>self.plugin.f(...)\<close>: an \<^verbatim>\<open>AttributeError\<close> when no plugin is bound, the call \<open>ev p\<close> of
  the module \<open>p\<close> otherwise.
\<close>

definition plugin_call :: "env \<Rightarrow> string \<Rightarrow> (string \<Rightarrow> event) \<Rightarrow> unit act" where
  "plugin_call env f ev c =
     (case plugin c of
        None \<Rightarrow> (Inl (AttributeError (''NoneType object has no attribute '' @ f)), c)
      | Some p \<Rightarrow> call env (ev p) c)"

text \<open>
  \<^verbatim>\<open>loadPlugin\<close> finalizes the bound plugin, then looks the module up in \<^verbatim>\<open>sys.modules\<close> or
  imports it; both are the one call \<open>ImportModule\<close>, which returns the module of that name.
\<close>

definition loadPlugin :: "env \<Rightarrow> json \<Rightarrow> string act" where
  "loadPlugin env name =
     then_do (\<lambda>c. case plugin c of None \<Rightarrow> (Inr (), c) | Some p \<Rightarrow> call env (PluginFinalizePlugin p) c)
       (then_with (lift (py_concat ''plugin_'' name))
          (\<lambda>modname. then_do (call env (ImportModule modname)) (ret modname)))"

subsection \<open>Sessions\<close>

definition initializeSession :: "env \<Rightarrow> json \<Rightarrow> unit act" where
  "initializeSession env msg =
     then_with (lift (py_getitem msg ''session_name''))
       (\<lambda>name. then_with (lift (py_concat ''Initializing session '' name))
       (\<lambda>_. then_do (modify (\<lambda>c. c\<lparr>session_args := msg, spectrum_index := 0, spectrum_failures := 0\<rparr>))
            (then_do (\<lambda>c. case call env (DatabaseCreate (detector_data c) msg) c of
                         (Inl e, c') \<Rightarrow> (Inl e, c')
                       | (Inr u, c') \<Rightarrow>
                           (Inr (), c'\<lparr>database_connection := Some (create_handle env (trace c))\<rparr>))
               (plugin_call env ''initializeSession'' (\<lambda>p. PluginInitializeSession p msg)))))"

definition finalizeSession :: "env \<Rightarrow> json \<Rightarrow> unit act" where
  "finalizeSession env msg =
     then_do (plugin_call env ''finalizeSession'' (\<lambda>p. PluginFinalizeSession p msg))
       (then_do (\<lambda>c. call env (DatabaseClose (database_connection c)) c)
          (modify (\<lambda>c. c\<lparr>database_connection := None\<rparr>)))"

definition sessionTick :: "controller \<Rightarrow> controller" where
  "sessionTick c =
     (if spectrum_state c = SpectrumState.Ready
      then c\<lparr>in_flight := in_flight c + 1, spectrum_state := SpectrumState.Busy\<rparr>
      else c)"

text \<open>
  \<^verbatim>\<open>LoopingCall.start(0.05)\<close> makes the first call of \<^verbatim>\<open>sessionTick\<close> at once, before
  \<^verbatim>\<open>start\<close> returns.
\<close>

definition startSession :: "json \<Rightarrow> unit act" where
  "startSession msg =
     then_with (lift (py_getitem msg ''session_name''))
       (\<lambda>name. then_with (lift (py_concat ''Starting session '' name))
       (\<lambda>_. modify (\<lambda>c. (sessionTick (c\<lparr>session_loop := Some (LoopingCall True)\<rparr>))
                          \<lparr>session_state := SessionState.Busy\<rparr>)))"

text \<open>
  \<^verbatim>\<open>LoopingCall.stop()\<close> asserts that the call is running.
\<close>

definition stopSession :: "json \<Rightarrow> unit act" where
  "stopSession msg c =
     (case session_loop c of
        None \<Rightarrow> (Inl (AttributeError ''NoneType object has no attribute stop''), c)
      | Some l \<Rightarrow>
          if running l
          then (Inr (), c\<lparr>session_loop := Some (LoopingCall False), session_state := SessionState.Ready\<rparr>)
          else (Inl (AssertionError ''Tried to stop a LoopingCall that was not running.''), c))"

subsection \<open>Results of acquisitions\<close>

definition handleSpectrumSuccess :: "env \<Rightarrow> json \<Rightarrow> unit act" where
  "handleSpectrumSuccess env msg =
     then_with (\<lambda>c. lift (py_setitem msg ''index'' (JInt (spectrum_index c))) c)
       (\<lambda>msg'. then_do (modify (\<lambda>c. c\<lparr>spectrum_index := spectrum_index c + 1\<rparr>))
          (then_do (\<lambda>c. call env (DatabaseInsertSpectrum (database_connection c) msg') c)
             (then_do (sendResponse msg')
                (modify (\<lambda>c. c\<lparr>spectrum_state := SpectrumState.Ready\<rparr>)))))"

definition escalation_text :: string where
  "escalation_text = ''Acquiring spectrum has failed 3 times, stopping session''"

definition handleSpectrumFailure :: "env \<Rightarrow> string \<Rightarrow> unit act" where
  "handleSpectrumFailure env err =
     then_do (sendResponseWithInfo ''error'' err)
       (then_do (modify (\<lambda>c. c\<lparr>spectrum_failures := spectrum_failures c + 1\<rparr>))
          (then_do (\<lambda>c. if spectrum_failures c \<ge> 3
                         then then_do (stopSession (session_args c))
                                (then_do (finalizeSession env (session_args c))
                                   (sendResponseWithInfo ''error'' escalation_text)) c
                         else (Inr (), c))
             (modify (\<lambda>c. c\<lparr>spectrum_state := SpectrumState.Ready\<rparr>))))"

subsection \<open>Commands\<close>

text \<open>
  The result of \<^verbatim>\<open>json.loads(data.decode("utf-8"))\<close>: the decoded value, or the
  \<^verbatim>\<open>ValueError\<close> of a datagram that does not decode.
\<close>

datatype payload = Malformed string | Parsed json

definition unless :: "bool \<Rightarrow> exn \<Rightarrow> unit act" where
  "unless ok e = (if ok then ret () else raise e)"

definition cmd_detector_config :: "env \<Rightarrow> json \<Rightarrow> unit act" where
  "cmd_detector_config env msg =
     then_do (\<lambda>c. unless (session_state c \<noteq> SessionState.Busy)
                (ProtocolError ''detector_config_busy'' ''Detector config failed, session is active'') c)
    (then_with (lift (py_getitem msg ''detector_data''))
    (\<lambda>dd. then_do (modify (\<lambda>c. c\<lparr>detector_data := dd\<rparr>))
    (then_with (lift (py_contains ''plugin_name'' dd))
    (\<lambda>has. then_do (unless has
                (ProtocolError ''detector_config_error'' ''Detector config failed, plugin_name missing''))
    (then_with (lift (py_getitem dd ''plugin_name''))
    (\<lambda>name. then_with (loadPlugin env name)
    (\<lambda>p. then_do (modify (\<lambda>c. c\<lparr>plugin := Some p\<rparr>))
    (then_do (plugin_call env ''initializePlugin'' PluginInitializePlugin)
    (then_do (plugin_call env ''initializeDetector'' (\<lambda>p. PluginInitializeDetector p dd))
    (then_do (modify (\<lambda>c. c\<lparr>detector_state := Warm\<rparr>))
    (sendResponseWithCommand ''detector_config_success'' dd
       (\<lambda>m c. c\<lparr>detector_data := m\<rparr>))))))))))))"

definition cmd_start_session :: "env \<Rightarrow> json \<Rightarrow> unit act" where
  "cmd_start_session env msg =
     then_do (\<lambda>c. unless (session_state c \<noteq> SessionState.Busy)
                (ProtocolError ''start_session_busy'' ''Start session failed, session is active'') c)
    (then_do (initializeSession env msg)
    (then_do (startSession msg)
    (sendResponseWithCommand ''start_session_success'' msg (\<lambda>m c. c\<lparr>session_args := m\<rparr>))))"

definition cmd_stop_session :: "env \<Rightarrow> json \<Rightarrow> unit act" where
  "cmd_stop_session env msg =
     then_do (\<lambda>c. unless (session_state c \<noteq> SessionState.Ready)
                (ProtocolError ''stop_session_noexist'' ''Stop session failed, no session active'') c)
    (then_with (\<lambda>c. lift (py_getitem (session_args c) ''session_name'') c)
    (\<lambda>current. then_with (lift (py_getitem msg ''session_name''))
    (\<lambda>given. then_do (unless (current = given)
                (ProtocolError ''stop_session_wrongname'' ''Stop session failed, wrong session name''))
    (then_do (stopSession msg)
    (then_do (finalizeSession env msg)
    (sendResponseWithCommand ''stop_session_success'' msg (\<lambda>m c. c)))))))"

definition cmd_dump_session :: "env \<Rightarrow> json \<Rightarrow> unit act" where
  "cmd_dump_session env msg =
     then_do (\<lambda>c. unless (session_state c \<noteq> SessionState.Ready)
                (ProtocolError ''dump_session_none'' ''Dump session failed, no session active'') c)
    (then_with (\<lambda>c. lift (py_setitem msg ''message''
                  (JStr (''dumping session to '' @
                     (case client_address c of None \<Rightarrow> ''None'' | Some a \<Rightarrow> str_addr env a)))) c)
    (\<lambda>msg'. sendResponseWithCommand ''dump_session_success'' msg' (\<lambda>m c. c)))"

definition status_response :: "env \<Rightarrow> controller \<Rightarrow> json" where
  "status_response env c =
     JObj [(''free_disk_space'', JInt (fst (statvfs env (trace c)) * snd (statvfs env (trace c)))),
           (''session_running'', JBool (if session_state c = SessionState.Busy then True else False)),
           (''spectrum_index'', JInt (if session_state c = SessionState.Ready then 0 else spectrum_index c)),
           (''detector_configured'', JBool (if detector_state c = Warm then True else False))]"

definition cmd_get_status :: "env \<Rightarrow> unit act" where
  "cmd_get_status env c =
     sendResponseWithCommand ''get_status_success'' (status_response env c) (\<lambda>m c. c) c"

definition spectrum_fields :: "(string \<times> nat) list" where
  "spectrum_fields =
     [(''session_name'', 2), (''index'', 3), (''time'', 4), (''latitude'', 5),
      (''latitude_error'', 6), (''longitude'', 7), (''longitude_error'', 8), (''altitude'', 9),
      (''altitude_error'', 10), (''track'', 11), (''track_error'', 12), (''speed'', 13),
      (''speed_error'', 14), (''climb'', 15), (''climb_error'', 16), (''livetime'', 17),
      (''realtime'', 18), (''total_count'', 19), (''num_channels'', 20), (''channels'', 21)]"

fun row_fields :: "json list \<Rightarrow> (string \<times> nat) list \<Rightarrow> exn + (string \<times> json) list" where
  "row_fields s [] = Inr []"
| "row_fields s ((k, i) # fs) =
     (case row_field s i of
        Inl e \<Rightarrow> Inl e
      | Inr v \<Rightarrow> (case row_fields s fs of Inl e \<Rightarrow> Inl e | Inr kvs \<Rightarrow> Inr ((k, v) # kvs)))"

definition spectrum_of_row :: "json list \<Rightarrow> exn + json" where
  "spectrum_of_row s =
     (case row_fields s spectrum_fields of
        Inl e \<Rightarrow> Inl e
      | Inr kvs \<Rightarrow> Inr (JObj ((''command'', JStr ''spectrum'') # kvs)))"

fun send_spectrums :: "json list list \<Rightarrow> unit act" where
  "send_spectrums [] c = (Inr (), c)"
| "send_spectrums (s # specs) c =
     (case spectrum_of_row s of
        Inl e \<Rightarrow> (Inl e, c)
      | Inr spec \<Rightarrow>
          (case sendResponse spec c of
             (Inl e, c') \<Rightarrow> (Inl e, c')
           | (Inr u, c') \<Rightarrow> send_spectrums specs c'))"

definition cmd_sync_session :: "env \<Rightarrow> json \<Rightarrow> unit act" where
  "cmd_sync_session env msg =
     then_with (lift (py_getitem msg ''session_name''))
    (\<lambda>name. then_with (lift (py_getitem msg ''indices_list''))
    (\<lambda>indices. then_with (lift (py_list env indices))
    (\<lambda>indices_list. then_with (lift (py_getitem msg ''last_index''))
    (\<lambda>last. then_with (lift (py_int env last))
    (\<lambda>last_index c.
        then_do (call env (DatabaseGetSyncSpectrums name indices_list last_index))
          (send_spectrums (sync_rows env (trace c))) c)))))"

text \<open>The body of the \<^verbatim>\<open>try\<close> of \<^verbatim>\<open>datagramReceived\<close>.\<close>

definition dispatch :: "env \<Rightarrow> payload \<Rightarrow> unit act" where
  "dispatch env data =
     then_with (lift (case data of Malformed s \<Rightarrow> Inl (ValueError s) | Parsed j \<Rightarrow> Inr j))
    (\<lambda>msg. then_with (lift (py_contains ''command'' msg))
    (\<lambda>has. then_do (unless has (ProtocolError ''error'' ''Message has no command''))
    (then_with (lift (py_getitem msg ''command''))
    (\<lambda>cmd.
       if cmd = JStr ''detector_config'' then cmd_detector_config env msg
       else if cmd = JStr ''start_session'' then cmd_start_session env msg
       else if cmd = JStr ''stop_session'' then cmd_stop_session env msg
       else if cmd = JStr ''dump_session'' then cmd_dump_session env msg
       else if cmd = JStr ''get_status'' then cmd_get_status env
       else if cmd = JStr ''sync_session'' then cmd_sync_session env msg
       else raise (OtherError (''Unknown command: '' @ str_of env cmd))))))"

text \<open>The three \<^verbatim>\<open>except\<close> clauses, in their order.\<close>

fun report :: "exn \<Rightarrow> unit act" where
  "report (ProtocolError command text) = sendResponseWithInfo command text"
| "report (ImportError m) = sendResponseWithInfo ''error'' ''Unable to import module''"
| "report e = sendResponseWithInfo ''error'' (str_exn e)"

definition datagramReceived :: "env \<Rightarrow> payload \<Rightarrow> addr \<Rightarrow> controller \<Rightarrow> controller" where
  "datagramReceived env data a c =
     (case dispatch env data (c\<lparr>client_address := Some a\<rparr>) of
        (Inl e, c') \<Rightarrow> snd (report e c')
      | (Inr u, c') \<Rightarrow> c')"

section \<open>The event loop\<close>

text \<open>
  What the reactor delivers to the controller: a datagram, a tick of the session's
  \<^verbatim>\<open>LoopingCall\<close> (only while it runs), and the callback or errback of an acquisition
  that was handed to a thread. An exception of a callback stays in its Deferred.
\<close>

datatype input = Datagram payload addr | Tick | Success json | Failure string

fun step :: "env \<Rightarrow> controller \<Rightarrow> input \<Rightarrow> controller" where
  "step env c (Datagram data a) = datagramReceived env data a c"
| "step env c Tick =
     (case session_loop c of
        None \<Rightarrow> c
      | Some l \<Rightarrow> if running l then sessionTick c else c)"
| "step env c (Success msg) =
     (if in_flight c = 0 then c
      else snd (handleSpectrumSuccess env msg (c\<lparr>in_flight := in_flight c - 1\<rparr>)))"
| "step env c (Failure err) =
     (if in_flight c = 0 then c
      else snd (handleSpectrumFailure env err (c\<lparr>in_flight := in_flight c - 1\<rparr>)))"

fun run :: "env \<Rightarrow> controller \<Rightarrow> input list \<Rightarrow> controller" where
  "run env c [] = c"
| "run env c (i # inputs) = run env (step env c i) inputs"

section \<open>Scenarios\<close>

text \<open>
  An environment in which every collaborator returns, one in which no plugin module can
  be imported, an operator, and the messages of an ordinary session.
\<close>

definition env_ok :: env where
  "env_ok = \<lparr> raises = (\<lambda>t ev. None), create_handle = (\<lambda>t. 1), statvfs = (\<lambda>t. (4096, 1000)),
      sync_rows = (\<lambda>t. []), str_of = (\<lambda>v. ''?''), str_addr = (\<lambda>a. fst a),
      py_list = (\<lambda>v. Inr []), py_int = (\<lambda>v. Inr 0) \<rparr>"

definition env_no_module :: env where
  "env_no_module = env_ok\<lparr> raises := (\<lambda>t ev. case ev of
       ImportModule m \<Rightarrow> Some (ImportError (''No module named '' @ m)) | _ \<Rightarrow> None) \<rparr>"

definition operator :: addr where
  "operator = (''10.0.0.2'', 5000)"

definition osprey_data :: json where
  "osprey_data = JObj [(''plugin_name'', JStr ''osprey''), (''voltage'', JInt 775)]"

definition config_msg :: json where
  "config_msg = JObj [(''command'', JStr ''detector_config''), (''detector_data'', osprey_data)]"

definition start_msg :: json where
  "start_msg = JObj [(''command'', JStr ''start_session''), (''session_name'', JStr ''s1'')]"

definition stop_msg :: json where
  "stop_msg = JObj [(''command'', JStr ''stop_session''), (''session_name'', JStr ''s1'')]"

definition status_msg :: json where
  "status_msg = JObj [(''command'', JStr ''get_status'')]"

definition spectrum_msg :: json where
  "spectrum_msg = JObj [(''command'', JStr ''spectrum''), (''total_count'', JInt 10)]"

definition incomplete_config_msg :: json where
  "incomplete_config_msg =
     JObj [(''command'', JStr ''detector_config''), (''detector_data'', JObj [(''voltage'', JInt 775)])]"

definition other_stop_msg :: json where
  "other_stop_msg = JObj [(''command'', JStr ''stop_session''), (''session_name'', JStr ''s2'')]"

definition dump_msg :: json where
  "dump_msg = JObj [(''command'', JStr ''dump_session''), (''session_name'', JStr ''s1'')]"

text \<open>The controller after a \<^verbatim>\<open>detector_config\<close>, and after the \<^verbatim>\<open>start_session\<close> that follows.\<close>

definition warm :: controller where
  "warm = datagramReceived env_ok (Parsed config_msg) operator init"

definition active :: controller where
  "active = datagramReceived env_ok (Parsed start_msg) operator warm"

text \<open>The controller after the operator has stopped that session, its first acquisition still in flight.\<close>

definition stopped :: controller where
  "stopped = datagramReceived env_ok (Parsed stop_msg) operator active"

text \<open>
  A command of the operator at \<open>a\<close> that is refused with the response \<open>tag\<close>, \<open>text\<close> and
  changes nothing else: only the last seen address and the datagrams sent differ.
\<close>

definition refused :: "addr \<Rightarrow> string \<Rightarrow> string \<Rightarrow> controller \<Rightarrow> controller" where
  "refused a tag text c =
     c\<lparr>client_address := Some a, trace := trace c @ [TransportWrite a (info tag text)]\<rparr>"

text \<open>The call that \<^verbatim>\<open>loadPlugin\<close> makes first: \<^verbatim>\<open>finalizePlugin\<close> of the plugin that is bound.\<close>

definition finalize_bound :: "controller \<Rightarrow> event list" where
  "finalize_bound c = (case plugin c of None \<Rightarrow> [] | Some p \<Rightarrow> [PluginFinalizePlugin p])"

section \<open>Invariants\<close>

text \<open>
  At most one acquisition is in flight, and none while the acquisition state is Ready.
\<close>

definition single_flight :: "controller \<Rightarrow> bool" where
  "single_flight c = (in_flight c \<le> 1 \<and> (spectrum_state c = SpectrumState.Ready \<longrightarrow> in_flight c = 0))"

text \<open>
  \<open>keeps P m\<close>: the method \<open>m\<close> ends in a controller that satisfies \<open>P\<close> whenever it starts
  in one, whether it returns or raises; \<open>keeps_on_raise P m\<close>: the same when it raises.
  \<open>flight_only P\<close>: \<open>P\<close> looks at \<open>in_flight\<close> and \<open>spectrum_state\<close> only.
\<close>

definition keeps :: "(controller \<Rightarrow> bool) \<Rightarrow> 'a act \<Rightarrow> bool" where
  "keeps P m = (\<forall>c. P c \<longrightarrow> P (snd (m c)))"

definition keeps_on_raise :: "(controller \<Rightarrow> bool) \<Rightarrow> 'a act \<Rightarrow> bool" where
  "keeps_on_raise P m = (\<forall>c. P c \<longrightarrow> (\<forall>e. fst (m c) = Inl e \<longrightarrow> P (snd (m c))))"

definition flight_only :: "(controller \<Rightarrow> bool) \<Rightarrow> bool" where
  "flight_only P =
     (\<forall>c c'. in_flight c' = in_flight c \<and> spectrum_state c' = spectrum_state c \<longrightarrow> P c \<longrightarrow> P c')"

section \<open>Basic facts\<close>

lemmas act_defs = ret_def raise_def lift_def modify_def then_with_def then_do_def unless_def
  call_def sendResponse_def sendResponseWithCommand_def sendResponseWithInfo_def plugin_call_def

lemmas cmd_defs = datagramReceived_def dispatch_def cmd_detector_config_def cmd_start_session_def
  cmd_stop_session_def cmd_dump_session_def cmd_get_status_def loadPlugin_def
  initializeSession_def finalizeSession_def startSession_def stopSession_def sessionTick_def
  handleSpectrumSuccess_def handleSpectrumFailure_def

lemmas scenario_defs = env_ok_def env_no_module_def operator_def osprey_data_def config_msg_def
  start_msg_def stop_msg_def status_msg_def spectrum_msg_def init_def incomplete_config_msg_def
  other_stop_msg_def dump_msg_def

lemma getitem_contains:
  assumes "py_getitem v k = Inr x"
  shows "py_contains k v = Inr True"
  using assms by (cases v) (auto split: option.splits)

lemma info_command: "py_getitem (info command text) ''command'' = Inr (JStr command)"
  by (simp add: info_def)

lemma report_generic:
  assumes "client_address c = Some a" and "\<forall>tag text. e \<noteq> ProtocolError tag text"
  shows "\<exists>text. snd (report e c) = c\<lparr>trace := trace c @ [TransportWrite a (info ''error'' text)]\<rparr>"
  using assms by (cases e) (auto simp: sendResponseWithInfo_def sendResponse_def info_command)

lemma report_any:
  assumes "client_address c = Some a"
  shows "\<exists>resp. snd (report e c) = c\<lparr>trace := trace c @ [TransportWrite a resp]\<rparr>"
  using assms by (cases e) (auto simp: sendResponseWithInfo_def sendResponse_def info_command)

lemma dispatch_command:
  assumes "py_getitem msg ''command'' = Inr cmd"
  shows "dispatch env (Parsed msg) =
      (if cmd = JStr ''detector_config'' then cmd_detector_config env msg
       else if cmd = JStr ''start_session'' then cmd_start_session env msg
       else if cmd = JStr ''stop_session'' then cmd_stop_session env msg
       else if cmd = JStr ''dump_session'' then cmd_dump_session env msg
       else if cmd = JStr ''get_status'' then cmd_get_status env
       else if cmd = JStr ''sync_session'' then cmd_sync_session env msg
       else raise (OtherError (''Unknown command: '' @ str_of env cmd)))"
  using assms getitem_contains[OF assms]
  by (auto simp: dispatch_def act_defs fun_eq_iff)

lemma warm_eq: "warm = \<lparr>client_address = Some operator, detector_state = Warm,
    detector_data = JObj [(''plugin_name'', JStr ''osprey''), (''voltage'', JInt 775),
        (''command'', JStr ''detector_config_success'')],
    session_args = JNull, session_loop = None,
    session_state = SessionState.Ready,
    spectrum_state = SpectrumState.Ready, spectrum_index = 0,
    spectrum_failures = 0, database_connection = None,
    plugin = Some ''plugin_osprey'',
    trace =
      [ImportModule ''plugin_osprey'',
       PluginInitializePlugin ''plugin_osprey'',
       PluginInitializeDetector ''plugin_osprey'' osprey_data,
       TransportWrite operator
        (JObj [(''plugin_name'', JStr ''osprey''), (''voltage'', JInt 775),
           (''command'', JStr ''detector_config_success'')])],
    in_flight = 0\<rparr>"
  by (simp add: warm_def cmd_defs act_defs scenario_defs)

lemma active_eq: "active = \<lparr>client_address = Some operator, detector_state = Warm,
    detector_data = JObj [(''plugin_name'', JStr ''osprey''), (''voltage'', JInt 775),
        (''command'', JStr ''detector_config_success'')],
    session_args = JObj [(''command'', JStr ''start_session_success''), (''session_name'', JStr ''s1'')],
    session_loop = Some (LoopingCall True),
    session_state = SessionState.Busy, spectrum_state = SpectrumState.Busy,
    spectrum_index = 0, spectrum_failures = 0, database_connection = Some 1,
    plugin = Some ''plugin_osprey'',
    trace = trace warm @
      [DatabaseCreate (detector_data warm) start_msg,
       PluginInitializeSession ''plugin_osprey'' start_msg,
       TransportWrite operator
        (JObj [(''command'', JStr ''start_session_success''), (''session_name'', JStr ''s1'')])],
    in_flight = 1\<rparr>"
  by (simp add: active_def warm_eq cmd_defs act_defs scenario_defs)

lemma sendResponseWithInfo_known:
  assumes "client_address c = Some a"
  shows "sendResponseWithInfo tag text c =
           (Inr (), c\<lparr>trace := trace c @ [TransportWrite a (info tag text)]\<rparr>)"
  using assms by (simp add: sendResponseWithInfo_def sendResponse_def info_command)

lemma loadPlugin_import_raises:
  assumes "\<forall>p. plugin c = Some p \<longrightarrow> raises env (trace c) (PluginFinalizePlugin p) = None"
    and "raises env (trace c @ finalize_bound c) (ImportModule (''plugin_'' @ name)) = Some e"
  shows "loadPlugin env (JStr name) c =
           (Inl e, c\<lparr>trace := trace c @ finalize_bound c @ [ImportModule (''plugin_'' @ name)]\<rparr>)"
  using assms
  by (cases "plugin c") (simp_all add: loadPlugin_def finalize_bound_def act_defs)

lemma detector_config_idle:
  assumes "session_state c \<noteq> SessionState.Busy"
    and "py_getitem msg ''detector_data'' = Inr dd"
    and "py_getitem dd ''plugin_name'' = Inr name"
  shows "cmd_detector_config env msg c =
    then_with (loadPlugin env name)
      (\<lambda>p. then_do (modify (\<lambda>c. c\<lparr>plugin := Some p\<rparr>))
      (then_do (plugin_call env ''initializePlugin'' PluginInitializePlugin)
      (then_do (plugin_call env ''initializeDetector'' (\<lambda>p. PluginInitializeDetector p dd))
      (then_do (modify (\<lambda>c. c\<lparr>detector_state := Warm\<rparr>))
      (sendResponseWithCommand ''detector_config_success'' dd
         (\<lambda>m c. c\<lparr>detector_data := m\<rparr>))))))
      (c\<lparr>detector_data := dd\<rparr>)"
  using assms getitem_contains[OF assms(3)]
  by (simp add: cmd_detector_config_def ret_def raise_def lift_def modify_def then_with_def
      then_do_def unless_def)

lemma start_session_no_plugin:
  assumes "session_state c = SessionState.Ready"
    and "plugin c = None"
    and "py_getitem msg ''session_name'' = Inr (JStr name)"
  shows "cmd_start_session env msg c =
    (case raises env (trace c) (DatabaseCreate (detector_data c) msg) of
       None \<Rightarrow> (Inl (AttributeError ''NoneType object has no attribute initializeSession''),
           c\<lparr>session_args := msg, spectrum_index := 0, spectrum_failures := 0,
             trace := trace c @ [DatabaseCreate (detector_data c) msg],
             database_connection := Some (create_handle env (trace c))\<rparr>)
     | Some e \<Rightarrow> (Inl e,
           c\<lparr>session_args := msg, spectrum_index := 0, spectrum_failures := 0,
             trace := trace c @ [DatabaseCreate (detector_data c) msg]\<rparr>))"
  using assms
  by (simp add: cmd_start_session_def initializeSession_def act_defs split: option.splits)

lemma detector_config_unresolved:
  assumes "session_state c \<noteq> SessionState.Busy"
    and "py_getitem msg ''command'' = Inr (JStr ''detector_config'')"
    and "py_getitem msg ''detector_data'' = Inr dd"
    and "py_getitem dd ''plugin_name'' = Inr (JStr name)"
    and "\<forall>p. plugin c = Some p \<longrightarrow> raises env (trace c) (PluginFinalizePlugin p) = None"
    and "raises env (trace c @ finalize_bound c) (ImportModule (''plugin_'' @ name)) = Some (ImportError m)"
  shows "datagramReceived env (Parsed msg) a c =
           c\<lparr>client_address := Some a, detector_data := dd,
             trace := trace c @ finalize_bound c @ [ImportModule (''plugin_'' @ name),
                TransportWrite a (info ''error'' ''Unable to import module'')]\<rparr>"
proof -
  let ?c = "c\<lparr>client_address := Some a\<rparr>"
  let ?d = "?c\<lparr>detector_data := dd\<rparr>"
  have fb: "finalize_bound ?d = finalize_bound c" by (simp add: finalize_bound_def)
  have "loadPlugin env (JStr name) ?d =
     (Inl (ImportError m), ?d\<lparr>trace := trace ?d @ finalize_bound ?d @ [ImportModule (''plugin_'' @ name)]\<rparr>)"
    by (rule loadPlugin_import_raises) (use assms(5,6) in \<open>simp_all add: fb\<close>)
  then have "cmd_detector_config env msg ?c =
     (Inl (ImportError m), ?d\<lparr>trace := trace c @ finalize_bound c @ [ImportModule (''plugin_'' @ name)]\<rparr>)"
    using detector_config_idle[of ?c msg dd "JStr name" env] assms(1,3,4)
    by (simp add: then_with_def fb)
  then show ?thesis
    by (simp add: datagramReceived_def dispatch_command[OF assms(2)] sendResponseWithInfo_known)
qed

section \<open>Commands refused or failing\<close>

text \<open>
  C7. A \<^verbatim>\<open>start_session\<close> received while the session state is Busy (a session is active) is
  answered with \<^verbatim>\<open>start_session_busy\<close>. The controller afterwards is the controller before
  with the sender's address stored and that one datagram sent: no session arguments are
  bound, and the spectrum index and the failure counter are what they were.
\<close>

theorem start_session_busy:
  assumes "session_state c = SessionState.Busy"
    and "py_getitem msg ''command'' = Inr (JStr ''start_session'')"
  shows "datagramReceived env (Parsed msg) a c =
           c\<lparr>client_address := Some a,
             trace := trace c @ [TransportWrite a
               (info ''start_session_busy'' ''Start session failed, session is active'')]\<rparr>
       \<and> session_args (datagramReceived env (Parsed msg) a c) = session_args c
       \<and> spectrum_index (datagramReceived env (Parsed msg) a c) = spectrum_index c
       \<and> spectrum_failures (datagramReceived env (Parsed msg) a c) = spectrum_failures c"
  using assms(1)
  by (simp add: datagramReceived_def dispatch_command[OF assms(2)] cmd_start_session_def
      act_defs info_command)

theorem start_session_busy_witness:
  "session_state active = SessionState.Busy
   \<and> py_getitem start_msg ''command'' = Inr (JStr ''start_session'')
   \<and> datagramReceived env_ok (Parsed start_msg) operator active =
       active\<lparr>client_address := Some operator,
         trace := trace active @ [TransportWrite operator
           (info ''start_session_busy'' ''Start session failed, session is active'')]\<rparr>
   \<and> session_args (datagramReceived env_ok (Parsed start_msg) operator active) =
       JObj [(''command'', JStr ''start_session_success''), (''session_name'', JStr ''s1'')]
   \<and> spectrum_index (datagramReceived env_ok (Parsed start_msg) operator active) = 0
   \<and> spectrum_failures (datagramReceived env_ok (Parsed start_msg) operator active) = 0"
proof -
  have b: "session_state active = SessionState.Busy"
    by (simp add: active_eq)
  have m: "py_getitem start_msg ''command'' = Inr (JStr ''start_session'')"
    by (simp add: start_msg_def)
  show ?thesis
    using start_session_busy[OF b m, of env_ok operator] b m by (simp add: active_eq)
qed

text \<open>
  C4, as amended. A command refused for the state of the session (\<^verbatim>\<open>detector_config\<close> or
  \<^verbatim>\<open>start_session\<close> while a session is active, \<^verbatim>\<open>stop_session\<close> with no session or with
  another session's name, \<^verbatim>\<open>dump_session\<close> with no session) is answered with its own
  named response and changes nothing but the last seen address. A \<^verbatim>\<open>detector_config\<close>
  whose \<^verbatim>\<open>detector_data\<close> has no \<^verbatim>\<open>plugin_name\<close> is answered with \<^verbatim>\<open>detector_config_error\<close>,
  and one whose plugin module cannot be imported with the generic \<^verbatim>\<open>error\<close>; in both the
  stored \<^verbatim>\<open>detector_data\<close> is replaced by the payload of the refused command, since the
  assignment comes before the checks, and in the second the bound plugin has been finalized.
\<close>

theorem refused_commands:
  "(session_state c = SessionState.Busy \<and> py_getitem msg ''command'' = Inr (JStr ''detector_config'')
      \<longrightarrow> datagramReceived env (Parsed msg) a c =
            refused a ''detector_config_busy'' ''Detector config failed, session is active'' c)
 \<and> (session_state c = SessionState.Busy \<and> py_getitem msg ''command'' = Inr (JStr ''start_session'')
      \<longrightarrow> datagramReceived env (Parsed msg) a c =
            refused a ''start_session_busy'' ''Start session failed, session is active'' c)
 \<and> (session_state c = SessionState.Ready \<and> py_getitem msg ''command'' = Inr (JStr ''stop_session'')
      \<longrightarrow> datagramReceived env (Parsed msg) a c =
            refused a ''stop_session_noexist'' ''Stop session failed, no session active'' c)
 \<and> (session_state c = SessionState.Busy \<and> py_getitem msg ''command'' = Inr (JStr ''stop_session'')
      \<and> py_getitem (session_args c) ''session_name'' = Inr current
      \<and> py_getitem msg ''session_name'' = Inr given \<and> current \<noteq> given
      \<longrightarrow> datagramReceived env (Parsed msg) a c =
            refused a ''stop_session_wrongname'' ''Stop session failed, wrong session name'' c)
 \<and> (session_state c = SessionState.Ready \<and> py_getitem msg ''command'' = Inr (JStr ''dump_session'')
      \<longrightarrow> datagramReceived env (Parsed msg) a c =
            refused a ''dump_session_none'' ''Dump session failed, no session active'' c)
 \<and> (session_state c = SessionState.Ready \<and> py_getitem msg ''command'' = Inr (JStr ''detector_config'')
      \<and> py_getitem msg ''detector_data'' = Inr dd \<and> py_contains ''plugin_name'' dd = Inr False
      \<longrightarrow> datagramReceived env (Parsed msg) a c =
            (refused a ''detector_config_error'' ''Detector config failed, plugin_name missing'' c)
              \<lparr>detector_data := dd\<rparr>)
 \<and> (session_state c = SessionState.Ready \<and> py_getitem msg ''command'' = Inr (JStr ''detector_config'')
      \<and> py_getitem msg ''detector_data'' = Inr dd \<and> py_getitem dd ''plugin_name'' = Inr (JStr name)
      \<and> (\<forall>p. plugin c = Some p \<longrightarrow> raises env (trace c) (PluginFinalizePlugin p) = None)
      \<and> raises env (trace c @ finalize_bound c) (ImportModule (''plugin_'' @ name)) = Some (ImportError m)
      \<longrightarrow> datagramReceived env (Parsed msg) a c =
            c\<lparr>client_address := Some a, detector_data := dd,
              trace := trace c @ finalize_bound c @ [ImportModule (''plugin_'' @ name),
                TransportWrite a (info ''error'' ''Unable to import module'')]\<rparr>)"
proof (intro conjI impI, goal_cases)
  case 7
  then show ?case
    using detector_config_unresolved[of c msg dd name env m a] by simp
qed (auto simp: datagramReceived_def dispatch_command refused_def sendResponseWithInfo_known
      cmd_detector_config_def cmd_start_session_def cmd_stop_session_def cmd_dump_session_def
      ret_def raise_def lift_def modify_def then_with_def then_do_def unless_def)

theorem refused_commands_witness:
  "datagramReceived env_ok (Parsed config_msg) operator active =
     refused operator ''detector_config_busy'' ''Detector config failed, session is active'' active
 \<and> datagramReceived env_ok (Parsed start_msg) operator active =
     refused operator ''start_session_busy'' ''Start session failed, session is active'' active
 \<and> datagramReceived env_ok (Parsed stop_msg) operator warm =
     refused operator ''stop_session_noexist'' ''Stop session failed, no session active'' warm
 \<and> datagramReceived env_ok (Parsed other_stop_msg) operator active =
     refused operator ''stop_session_wrongname'' ''Stop session failed, wrong session name'' active
 \<and> datagramReceived env_ok (Parsed dump_msg) operator warm =
     refused operator ''dump_session_none'' ''Dump session failed, no session active'' warm
 \<and> datagramReceived env_ok (Parsed incomplete_config_msg) operator warm =
     (refused operator ''detector_config_error'' ''Detector config failed, plugin_name missing'' warm)
       \<lparr>detector_data := JObj [(''voltage'', JInt 775)]\<rparr>
 \<and> datagramReceived env_no_module (Parsed config_msg) operator warm =
     warm\<lparr>client_address := Some operator, detector_data := osprey_data,
       trace := trace warm @ [PluginFinalizePlugin ''plugin_osprey'', ImportModule ''plugin_osprey'',
         TransportWrite operator (info ''error'' ''Unable to import module'')]\<rparr>"
proof -
  have b: "session_state active = SessionState.Busy" and r: "session_state warm = SessionState.Ready"
    by (simp_all add: active_eq warm_eq)
  have n: "py_getitem (session_args active) ''session_name'' = Inr (JStr ''s1'')"
    by (simp add: active_eq)
  have m: "py_getitem config_msg ''command'' = Inr (JStr ''detector_config'')"
    "py_getitem start_msg ''command'' = Inr (JStr ''start_session'')"
    "py_getitem stop_msg ''command'' = Inr (JStr ''stop_session'')"
    "py_getitem other_stop_msg ''command'' = Inr (JStr ''stop_session'')"
    "py_getitem other_stop_msg ''session_name'' = Inr (JStr ''s2'')"
    "py_getitem dump_msg ''command'' = Inr (JStr ''dump_session'')"
    "py_getitem incomplete_config_msg ''command'' = Inr (JStr ''detector_config'')"
    "py_getitem incomplete_config_msg ''detector_data'' = Inr (JObj [(''voltage'', JInt 775)])"
    "py_contains ''plugin_name'' (JObj [(''voltage'', JInt 775)]) = Inr False"
    "py_getitem config_msg ''detector_data'' = Inr osprey_data"
    "py_getitem osprey_data ''plugin_name'' = Inr (JStr ''osprey'')"
    by (simp_all add: scenario_defs)
  have e: "\<forall>p. plugin warm = Some p \<longrightarrow> raises env_no_module (trace warm) (PluginFinalizePlugin p) = None"
    "raises env_no_module (trace warm @ finalize_bound warm) (ImportModule (''plugin_'' @ ''osprey''))
        = Some (ImportError ''No module named plugin_osprey'')"
    "finalize_bound warm = [PluginFinalizePlugin ''plugin_osprey'']"
    by (simp_all add: scenario_defs warm_eq finalize_bound_def)
  show ?thesis
    using refused_commands[of active config_msg env_ok operator]
      refused_commands[of active start_msg env_ok operator]
      refused_commands[of warm stop_msg env_ok operator]
      refused_commands[of active other_stop_msg env_ok operator "JStr ''s1''" "JStr ''s2''"]
      refused_commands[of warm dump_msg env_ok operator]
      refused_commands[of warm incomplete_config_msg env_ok operator _ _ "JObj [(''voltage'', JInt 775)]"]
      refused_commands[of warm config_msg env_no_module operator _ _ osprey_data "''osprey''"
        "''No module named plugin_osprey''"]
      b r n m e
    by simp
qed

text \<open>
  C4 as stated fails: the first \<^verbatim>\<open>detector_config\<close> of a fresh controller, with a payload
  that has no \<^verbatim>\<open>plugin_name\<close>, is refused with \<^verbatim>\<open>detector_config_error\<close>, and the stored
  \<^verbatim>\<open>detector_data\<close> is no longer what it was.
\<close>

theorem rejected_config_mutates_counterexample:
  "datagramReceived env_ok (Parsed incomplete_config_msg) operator init =
     init\<lparr>client_address := Some operator, detector_data := JObj [(''voltage'', JInt 775)],
       trace := [TransportWrite operator
         (info ''detector_config_error'' ''Detector config failed, plugin_name missing'')]\<rparr>
   \<and> detector_data (datagramReceived env_ok (Parsed incomplete_config_msg) operator init)
       \<noteq> detector_data init"
  by (simp add: cmd_defs act_defs scenario_defs info_def)

text \<open>
  C3, as amended. A \<^verbatim>\<open>detector_config\<close> received with no session active, whose plugin
  module cannot be imported (\<^verbatim>\<open>ImportError\<close>), is answered with the generic response
  \<^verbatim>\<open>error\<close>, "Unable to import module". The session state, the detector state and the
  plugin bound are what they were; the stored \<^verbatim>\<open>detector_data\<close> is replaced by the payload
  of the command.
\<close>

theorem unknown_plugin_config:
  assumes "session_state c \<noteq> SessionState.Busy"
    and "py_getitem msg ''command'' = Inr (JStr ''detector_config'')"
    and "py_getitem msg ''detector_data'' = Inr dd"
    and "py_getitem dd ''plugin_name'' = Inr (JStr name)"
    and "\<forall>p. plugin c = Some p \<longrightarrow> raises env (trace c) (PluginFinalizePlugin p) = None"
    and "raises env (trace c @ finalize_bound c) (ImportModule (''plugin_'' @ name)) = Some (ImportError m)"
  shows "datagramReceived env (Parsed msg) a c =
           c\<lparr>client_address := Some a, detector_data := dd,
             trace := trace c @ finalize_bound c @ [ImportModule (''plugin_'' @ name),
                TransportWrite a (info ''error'' ''Unable to import module'')]\<rparr>
       \<and> session_state (datagramReceived env (Parsed msg) a c) = session_state c
       \<and> detector_state (datagramReceived env (Parsed msg) a c) = detector_state c
       \<and> plugin (datagramReceived env (Parsed msg) a c) = plugin c"
proof -
  have after: "datagramReceived env (Parsed msg) a c =
           c\<lparr>client_address := Some a, detector_data := dd,
             trace := trace c @ finalize_bound c @ [ImportModule (''plugin_'' @ name),
                TransportWrite a (info ''error'' ''Unable to import module'')]\<rparr>"
    using assms by (rule detector_config_unresolved)
  have "session_state (datagramReceived env (Parsed msg) a c) = session_state c"
    and "detector_state (datagramReceived env (Parsed msg) a c) = detector_state c"
    and "plugin (datagramReceived env (Parsed msg) a c) = plugin c"
    unfolding after by simp_all
  with after show ?thesis by blast
qed

theorem unknown_plugin_config_witness:
  "session_state warm \<noteq> SessionState.Busy
   \<and> py_getitem config_msg ''command'' = Inr (JStr ''detector_config'')
   \<and> py_getitem config_msg ''detector_data'' = Inr osprey_data
   \<and> py_getitem osprey_data ''plugin_name'' = Inr (JStr ''osprey'')
   \<and> raises env_no_module (trace warm @ finalize_bound warm) (ImportModule (''plugin_'' @ ''osprey''))
        = Some (ImportError ''No module named plugin_osprey'')
   \<and> datagramReceived env_no_module (Parsed config_msg) operator warm =
        warm\<lparr>client_address := Some operator, detector_data := osprey_data,
          trace := trace warm @ [PluginFinalizePlugin ''plugin_osprey'', ImportModule ''plugin_osprey'',
            TransportWrite operator (info ''error'' ''Unable to import module'')]\<rparr>
   \<and> session_state (datagramReceived env_no_module (Parsed config_msg) operator warm) = SessionState.Ready
   \<and> detector_state (datagramReceived env_no_module (Parsed config_msg) operator warm) = Warm
   \<and> plugin (datagramReceived env_no_module (Parsed config_msg) operator warm) = Some ''plugin_osprey''"
proof -
  have h1: "session_state warm \<noteq> SessionState.Busy" by (simp add: warm_eq)
  have h2: "py_getitem config_msg ''command'' = Inr (JStr ''detector_config'')"
    by (simp add: scenario_defs)
  have h3: "py_getitem config_msg ''detector_data'' = Inr osprey_data" by (simp add: scenario_defs)
  have h4: "py_getitem osprey_data ''plugin_name'' = Inr (JStr ''osprey'')" by (simp add: scenario_defs)
  have h5: "\<forall>p. plugin warm = Some p \<longrightarrow> raises env_no_module (trace warm) (PluginFinalizePlugin p) = None"
    by (simp add: scenario_defs)
  have h6: "raises env_no_module (trace warm @ finalize_bound warm) (ImportModule (''plugin_'' @ ''osprey''))
        = Some (ImportError ''No module named plugin_osprey'')"
    by (simp add: scenario_defs)
  show ?thesis
    using unknown_plugin_config[OF h1 h2 h3 h4 h5 h6, of operator] h1 h2 h3 h4 h6
    by (simp add: warm_eq finalize_bound_def)
qed

text \<open>
  C3 as stated fails: on a fresh controller, with an environment in which no module can
  be imported, a \<^verbatim>\<open>detector_config\<close> naming the plugin \<^verbatim>\<open>osprey\<close> is answered with the
  command \<^verbatim>\<open>error\<close>, not \<^verbatim>\<open>detector_config_error\<close>, and the stored \<^verbatim>\<open>detector_data\<close> has
  changed.
\<close>

theorem unknown_plugin_counterexample:
  "trace (datagramReceived env_no_module (Parsed config_msg) operator init) =
     [ImportModule ''plugin_osprey'',
      TransportWrite operator
        (JObj [(''command'', JStr ''error''), (''message'', JStr ''Unable to import module'')])]
   \<and> JStr ''error'' \<noteq> JStr ''detector_config_error''
   \<and> detector_data (datagramReceived env_no_module (Parsed config_msg) operator init)
       \<noteq> detector_data init"
  by (simp add: cmd_defs act_defs scenario_defs info_def)

text \<open>
  C9. \<^verbatim>\<open>loadPlugin\<close> calls \<^verbatim>\<open>finalizePlugin\<close> of the plugin that is bound before it looks for
  the new module. So when a \<^verbatim>\<open>detector_config\<close> arrives with a plugin bound and the new
  module cannot be resolved, the bound plugin has been finalized, the detector state is
  what it was (Warm, if it was Warm) and \<^verbatim>\<open>plugin\<close> still names the finalized module.
\<close>

theorem rebinding_finalizes_first:
  assumes "session_state c \<noteq> SessionState.Busy"
    and "plugin c = Some p"
    and "py_getitem msg ''command'' = Inr (JStr ''detector_config'')"
    and "py_getitem msg ''detector_data'' = Inr dd"
    and "py_getitem dd ''plugin_name'' = Inr (JStr name)"
    and "raises env (trace c) (PluginFinalizePlugin p) = None"
    and "raises env (trace c @ [PluginFinalizePlugin p]) (ImportModule (''plugin_'' @ name)) = Some e"
  shows "(\<exists>resp. trace (datagramReceived env (Parsed msg) a c) =
            trace c @ [PluginFinalizePlugin p, ImportModule (''plugin_'' @ name), TransportWrite a resp])
       \<and> plugin (datagramReceived env (Parsed msg) a c) = Some p
       \<and> detector_state (datagramReceived env (Parsed msg) a c) = detector_state c"
proof -
  let ?c = "c\<lparr>client_address := Some a\<rparr>"
  let ?d = "?c\<lparr>detector_data := dd\<rparr>"
  let ?e = "?d\<lparr>trace := trace c @ [PluginFinalizePlugin p, ImportModule (''plugin_'' @ name)]\<rparr>"
  have fb: "finalize_bound ?d = [PluginFinalizePlugin p]"
    using assms(2) by (simp add: finalize_bound_def)
  have "loadPlugin env (JStr name) ?d =
     (Inl e, ?d\<lparr>trace := trace ?d @ finalize_bound ?d @ [ImportModule (''plugin_'' @ name)]\<rparr>)"
    by (rule loadPlugin_import_raises) (use assms(2,6,7) in \<open>simp_all add: fb\<close>)
  then have run: "cmd_detector_config env msg ?c = (Inl e, ?e)"
    using detector_config_idle[of ?c msg dd "JStr name" env] assms(1,4,5)
    by (simp add: then_with_def fb)
  obtain resp where "snd (report e ?e) = ?e\<lparr>trace := trace ?e @ [TransportWrite a resp]\<rparr>"
    using report_any[of ?e a e] by auto
  with run show ?thesis using assms(2)
    by (simp add: datagramReceived_def dispatch_command[OF assms(3)])
qed

theorem rebinding_finalizes_first_witness:
  "session_state warm \<noteq> SessionState.Busy
   \<and> plugin warm = Some ''plugin_osprey''
   \<and> raises env_no_module (trace warm) (PluginFinalizePlugin ''plugin_osprey'') = None
   \<and> raises env_no_module (trace warm @ [PluginFinalizePlugin ''plugin_osprey''])
        (ImportModule (''plugin_'' @ ''osprey'')) = Some (ImportError ''No module named plugin_osprey'')
   \<and> (\<exists>resp. trace (datagramReceived env_no_module (Parsed config_msg) operator warm) =
         trace warm @ [PluginFinalizePlugin ''plugin_osprey'', ImportModule (''plugin_'' @ ''osprey''),
           TransportWrite operator resp])
   \<and> plugin (datagramReceived env_no_module (Parsed config_msg) operator warm) = Some ''plugin_osprey''
   \<and> detector_state (datagramReceived env_no_module (Parsed config_msg) operator warm) = Warm"
proof -
  have h1: "session_state warm \<noteq> SessionState.Busy" by (simp add: warm_eq)
  have h2: "plugin warm = Some ''plugin_osprey''" by (simp add: warm_eq)
  have h3: "py_getitem config_msg ''command'' = Inr (JStr ''detector_config'')"
    by (simp add: scenario_defs)
  have h4: "py_getitem config_msg ''detector_data'' = Inr osprey_data" by (simp add: scenario_defs)
  have h5: "py_getitem osprey_data ''plugin_name'' = Inr (JStr ''osprey'')" by (simp add: scenario_defs)
  have h6: "raises env_no_module (trace warm) (PluginFinalizePlugin ''plugin_osprey'') = None"
    by (simp add: scenario_defs)
  have h7: "raises env_no_module (trace warm @ [PluginFinalizePlugin ''plugin_osprey''])
        (ImportModule (''plugin_'' @ ''osprey'')) = Some (ImportError ''No module named plugin_osprey'')"
    by (simp add: scenario_defs)
  have w: "detector_state warm = Warm" by (simp add: warm_eq)
  show ?thesis
    using rebinding_finalizes_first[OF h1 h2 h3 h4 h5 h6 h7, of operator] h1 h2 h6 h7 w
    by simp
qed

text \<open>
  C10. A \<^verbatim>\<open>start_session\<close> that carries a session name, received with no session active
  and no plugin bound, fails after \<^verbatim>\<open>initializeSession\<close> has begun: whether
  \<^verbatim>\<open>database.create\<close> returns (and the call on the missing plugin raises) or raises itself
  (anything but a \<^verbatim>\<open>ProtocolError\<close>), the answer is the generic \<^verbatim>\<open>error\<close> and the session
  state stays Ready, but the message is bound as \<^verbatim>\<open>session_args\<close> and the spectrum index
  and the failure counter are 0.
\<close>

theorem start_session_without_plugin:
  assumes "session_state c = SessionState.Ready"
    and "plugin c = None"
    and "py_getitem msg ''command'' = Inr (JStr ''start_session'')"
    and "py_getitem msg ''session_name'' = Inr (JStr name)"
    and "\<forall>tag text. raises env (trace c) (DatabaseCreate (detector_data c) msg)
           \<noteq> Some (ProtocolError tag text)"
  shows "(\<exists>text. trace (datagramReceived env (Parsed msg) a c) =
             trace c @ [DatabaseCreate (detector_data c) msg, TransportWrite a (info ''error'' text)])
    \<and> session_state (datagramReceived env (Parsed msg) a c) = SessionState.Ready
    \<and> session_args (datagramReceived env (Parsed msg) a c) = msg
    \<and> spectrum_index (datagramReceived env (Parsed msg) a c) = 0
    \<and> spectrum_failures (datagramReceived env (Parsed msg) a c) = 0"
proof (cases "raises env (trace c) (DatabaseCreate (detector_data c) msg)")
  case None
  let ?c = "c\<lparr>client_address := Some a\<rparr>"
  have "cmd_start_session env msg ?c =
     (Inl (AttributeError ''NoneType object has no attribute initializeSession''),
           ?c\<lparr>session_args := msg, spectrum_index := 0, spectrum_failures := 0,
             trace := trace c @ [DatabaseCreate (detector_data c) msg],
             database_connection := Some (create_handle env (trace c))\<rparr>)"
    using start_session_no_plugin[of ?c msg name env] assms None by simp
  then show ?thesis using assms(1)
    by (auto simp: datagramReceived_def dispatch_command[OF assms(3)] sendResponseWithInfo_known)
next
  case (Some e)
  let ?c = "c\<lparr>client_address := Some a\<rparr>"
  let ?d = "?c\<lparr>session_args := msg, spectrum_index := 0, spectrum_failures := 0,
             trace := trace c @ [DatabaseCreate (detector_data c) msg]\<rparr>"
  have run: "cmd_start_session env msg ?c = (Inl e, ?d)"
    using start_session_no_plugin[of ?c msg name env] assms Some by simp
  have "\<forall>tag text. e \<noteq> ProtocolError tag text" using assms(5) Some by simp
  from report_generic[OF _ this, of ?d a]
  obtain m where "snd (report e ?d) = ?d\<lparr>trace := trace ?d @ [TransportWrite a (info ''error'' m)]\<rparr>"
    by auto
  with run show ?thesis using assms(1)
    by (auto simp: datagramReceived_def dispatch_command[OF assms(3)])
qed

theorem start_session_without_plugin_witness:
  "session_state init = SessionState.Ready
   \<and> plugin init = None
   \<and> py_getitem start_msg ''command'' = Inr (JStr ''start_session'')
   \<and> py_getitem start_msg ''session_name'' = Inr (JStr ''s1'')
   \<and> raises env_ok (trace init) (DatabaseCreate (detector_data init) start_msg) = None
   \<and> (\<exists>text. trace (datagramReceived env_ok (Parsed start_msg) operator init) =
         trace init @ [DatabaseCreate (detector_data init) start_msg,
           TransportWrite operator (info ''error'' text)])
   \<and> session_state (datagramReceived env_ok (Parsed start_msg) operator init) = SessionState.Ready
   \<and> session_args (datagramReceived env_ok (Parsed start_msg) operator init) = start_msg
   \<and> spectrum_index (datagramReceived env_ok (Parsed start_msg) operator init) = 0
   \<and> spectrum_failures (datagramReceived env_ok (Parsed start_msg) operator init) = 0"
proof -
  have h1: "session_state init = SessionState.Ready" by (simp add: init_def)
  have h2: "plugin init = None" by (simp add: init_def)
  have h3: "py_getitem start_msg ''command'' = Inr (JStr ''start_session'')"
    by (simp add: scenario_defs)
  have h4: "py_getitem start_msg ''session_name'' = Inr (JStr ''s1'')" by (simp add: scenario_defs)
  have h5: "\<forall>tag text. raises env_ok (trace init) (DatabaseCreate (detector_data init) start_msg)
           \<noteq> Some (ProtocolError tag text)"
    by (simp add: env_ok_def)
  show ?thesis
    using start_session_without_plugin[OF h1 h2 h3 h4 h5, of operator] h1 h2 h3 h4
    by (simp add: env_ok_def)
qed

section \<open>Status\<close>

text \<open>
  C8. The answer to \<^verbatim>\<open>get_status\<close> is one datagram with the command
  \<^verbatim>\<open>get_status_success\<close> and four fields: \<^verbatim>\<open>free_disk_space\<close>, the integer
  \<^verbatim>\<open>f_bsize * f_bavail\<close>; \<^verbatim>\<open>session_running\<close>, the boolean that is true exactly when the
  session state is Busy (a session is active); \<^verbatim>\<open>spectrum_index\<close>, the integer 0 when the
  session state is Ready (idle) and the current index otherwise; \<^verbatim>\<open>detector_configured\<close>,
  the boolean that is true exactly when the detector state is Warm.
\<close>

theorem get_status_response:
  assumes "py_getitem msg ''command'' = Inr (JStr ''get_status'')"
  shows "trace (datagramReceived env (Parsed msg) a c) = trace c @ [TransportWrite a (JObj
           [(''free_disk_space'', JInt (fst (statvfs env (trace c)) * snd (statvfs env (trace c)))),
            (''session_running'', JBool (session_state c = SessionState.Busy)),
            (''spectrum_index'',
               JInt (if session_state c = SessionState.Ready then 0 else spectrum_index c)),
            (''detector_configured'', JBool (detector_state c = Warm)),
            (''command'', JStr ''get_status_success'')])]"
  by (simp add: datagramReceived_def dispatch_command[OF assms] cmd_get_status_def
      status_response_def act_defs)

theorem get_status_response_witness:
  "py_getitem status_msg ''command'' = Inr (JStr ''get_status'')
   \<and> trace (datagramReceived env_ok (Parsed status_msg) operator active) =
       trace active @ [TransportWrite operator (JObj
           [(''free_disk_space'', JInt 4096000),
            (''session_running'', JBool True),
            (''spectrum_index'', JInt 0),
            (''detector_configured'', JBool True),
            (''command'', JStr ''get_status_success'')])]"
proof -
  have h: "py_getitem status_msg ''command'' = Inr (JStr ''get_status'')"
    by (simp add: scenario_defs)
  show ?thesis
    using get_status_response[OF h, of env_ok operator active] h
    by (simp add: active_eq env_ok_def)
qed

lemma stopped_eq: "stopped = active\<lparr>session_loop := Some (LoopingCall False),
    session_state := SessionState.Ready, database_connection := None,
    trace := trace active @ [PluginFinalizeSession ''plugin_osprey'' stop_msg, DatabaseClose (Some 1),
       TransportWrite operator
         (JObj [(''command'', JStr ''stop_session_success''), (''session_name'', JStr ''s1'')])]\<rparr>"
  by (simp add: stopped_def active_eq cmd_defs act_defs scenario_defs)

section \<open>What a method leaves as it is\<close>

lemma flight_onlyD:
  "flight_only P \<Longrightarrow> P c \<Longrightarrow> in_flight c' = in_flight c \<Longrightarrow> spectrum_state c' = spectrum_state c \<Longrightarrow> P c'"
  unfolding flight_only_def by blast

lemma keepsD: "keeps P m \<Longrightarrow> P c \<Longrightarrow> P (snd (m c))"
  by (simp add: keeps_def)

lemma keeps_ret: "keeps P (ret v)" by (simp add: keeps_def ret_def)
lemma keeps_raise: "keeps P (raise e)" by (simp add: keeps_def raise_def)
lemma keeps_lift: "keeps P (lift r)" by (simp add: keeps_def lift_def)
lemma keeps_lift_st: "keeps P (\<lambda>c. lift (g c) c)" by (simp add: keeps_def lift_def)
lemma keeps_unless: "keeps P (unless b e)" by (simp add: keeps_def unless_def ret_def raise_def)
lemma keeps_unless_st: "keeps P (\<lambda>c. unless (b c) e c)" by (simp add: keeps_def unless_def ret_def raise_def)

lemma keeps_modify:
  assumes "flight_only P" and "\<And>c. in_flight (f c) = in_flight c \<and> spectrum_state (f c) = spectrum_state c"
  shows "keeps P (modify f)"
  using assms by (auto simp: keeps_def modify_def elim: flight_onlyD)

lemma keeps_then_with:
  assumes "keeps P m" and "\<And>v. keeps P (f v)"
  shows "keeps P (then_with m f)"
  using assms by (auto simp: keeps_def then_with_def split: prod.splits sum.splits)

lemma keeps_then_do:
  assumes "keeps P m" and "keeps P n"
  shows "keeps P (then_do m n)"
  unfolding then_do_def using assms by (intro keeps_then_with)

lemma keeps_call_st:
  assumes "flight_only P"
  shows "keeps P (\<lambda>c. call env (ev c) c)"
  using assms by (auto simp: keeps_def call_def split: option.splits elim: flight_onlyD)

lemma keeps_call:
  assumes "flight_only P"
  shows "keeps P (call env ev)"
  using keeps_call_st[OF assms, of env "\<lambda>_. ev"] .

lemma keeps_sendResponse:
  assumes "flight_only P"
  shows "keeps P (sendResponse msg)"
  using assms by (auto simp: keeps_def sendResponse_def split: option.splits sum.splits elim: flight_onlyD)

lemma keeps_sendResponseWithInfo:
  assumes "flight_only P"
  shows "keeps P (sendResponseWithInfo tag text)"
  unfolding sendResponseWithInfo_def by (rule keeps_sendResponse[OF assms])

lemma keeps_sendResponseWithCommand:
  assumes "flight_only P"
    and "\<And>m c. in_flight (alias m c) = in_flight c \<and> spectrum_state (alias m c) = spectrum_state c"
  shows "keeps P (sendResponseWithCommand command msg alias)"
  unfolding sendResponseWithCommand_def
  by (intro keeps_then_with keeps_then_do keeps_lift keeps_modify keeps_sendResponse assms)

lemma keeps_plugin_call:
  assumes "flight_only P"
  shows "keeps P (plugin_call env f ev)"
  using keeps_call[OF assms, of env] by (auto simp: keeps_def plugin_call_def split: option.splits)

lemma keeps_loadPlugin:
  assumes "flight_only P"
  shows "keeps P (loadPlugin env name)"
proof -
  have "keeps P (\<lambda>c. case plugin c of None \<Rightarrow> (Inr (), c) | Some p \<Rightarrow> call env (PluginFinalizePlugin p) c)"
    using keeps_call[OF assms, of env] by (auto simp: keeps_def split: option.splits)
  then show ?thesis
    unfolding loadPlugin_def
    by (intro keeps_then_with keeps_then_do keeps_lift keeps_call keeps_ret assms)
qed

lemma keeps_initializeSession:
  assumes "flight_only P"
  shows "keeps P (initializeSession env msg)"
proof -
  have "keeps P (\<lambda>c. case call env (DatabaseCreate (detector_data c) msg) c of
                         (Inl e, c') \<Rightarrow> (Inl e, c')
                       | (Inr u, c') \<Rightarrow>
                           (Inr (), c'\<lparr>database_connection := Some (create_handle env (trace c))\<rparr>))"
    using assms by (auto simp: keeps_def call_def split: option.splits elim: flight_onlyD)
  then show ?thesis
    unfolding initializeSession_def
    by (intro keeps_then_with keeps_then_do keeps_lift keeps_modify keeps_plugin_call assms) simp_all
qed

lemma keeps_finalizeSession:
  assumes "flight_only P"
  shows "keeps P (finalizeSession env msg)"
  unfolding finalizeSession_def
  by (intro keeps_then_with keeps_then_do keeps_call_st keeps_modify keeps_plugin_call assms) simp_all

lemma keeps_stopSession:
  assumes "flight_only P"
  shows "keeps P (stopSession msg)"
  using assms by (auto simp: keeps_def stopSession_def split: option.splits elim: flight_onlyD)

lemma keeps_startSession:
  assumes "flight_only P" and "\<And>c. P c \<Longrightarrow> P (sessionTick c)"
  shows "keeps P (startSession msg)"
proof -
  have "keeps P (modify (\<lambda>c. (sessionTick (c\<lparr>session_loop := Some (LoopingCall True)\<rparr>))
                          \<lparr>session_state := SessionState.Busy\<rparr>))"
    unfolding keeps_def modify_def
  proof (intro allI impI)
    fix c assume "P c"
    then have "P (c\<lparr>session_loop := Some (LoopingCall True)\<rparr>)"
      by (rule flight_onlyD[OF assms(1)]) simp_all
    then have "P (sessionTick (c\<lparr>session_loop := Some (LoopingCall True)\<rparr>))"
      by (rule assms(2))
    then have "P ((sessionTick (c\<lparr>session_loop := Some (LoopingCall True)\<rparr>))\<lparr>session_state := SessionState.Busy\<rparr>)"
      by (rule flight_onlyD[OF assms(1)]) simp_all
    then show "P (snd (Inr (), (sessionTick (c\<lparr>session_loop := Some (LoopingCall True)\<rparr>))\<lparr>session_state := SessionState.Busy\<rparr>))"
      by simp
  qed
  then show ?thesis
    unfolding startSession_def
    by (intro keeps_then_with keeps_lift)
qed

lemma keeps_send_spectrums:
  assumes "flight_only P"
  shows "keeps P (send_spectrums specs)"
proof (induction specs)
  case Nil
  show ?case by (simp add: keeps_def)
next
  case (Cons s specs)
  show ?case
    unfolding keeps_def
  proof (intro allI impI)
    fix c assume p: "P c"
    show "P (snd (send_spectrums (s # specs) c))"
    proof (cases "spectrum_of_row s")
      case (Inl e)
      then show ?thesis using p by simp
    next
      case (Inr spec)
      have "P (snd (sendResponse spec c))"
        using keepsD[OF keeps_sendResponse[OF assms] p] .
      then show ?thesis using Inr p keepsD[OF Cons]
        by (auto split: prod.splits sum.splits)
    qed
  qed
qed

lemma keeps_detector_config:
  assumes "flight_only P"
  shows "keeps P (cmd_detector_config env msg)"
  unfolding cmd_detector_config_def
  by (intro keeps_then_with keeps_then_do keeps_unless_st keeps_unless keeps_lift keeps_modify
      keeps_loadPlugin keeps_plugin_call keeps_sendResponseWithCommand assms) simp_all

lemma keeps_start_session:
  assumes "flight_only P" and "\<And>c. P c \<Longrightarrow> P (sessionTick c)"
  shows "keeps P (cmd_start_session env msg)"
  unfolding cmd_start_session_def
  by (intro keeps_then_with keeps_then_do keeps_unless_st keeps_initializeSession
      keeps_startSession keeps_sendResponseWithCommand assms) simp_all

lemma keeps_stop_session:
  assumes "flight_only P"
  shows "keeps P (cmd_stop_session env msg)"
  unfolding cmd_stop_session_def
  by (intro keeps_then_with keeps_then_do keeps_unless_st keeps_unless keeps_lift keeps_lift_st
      keeps_stopSession keeps_finalizeSession keeps_sendResponseWithCommand assms) simp_all

lemma keeps_dump_session:
  assumes "flight_only P"
  shows "keeps P (cmd_dump_session env msg)"
  unfolding cmd_dump_session_def
  by (intro keeps_then_with keeps_then_do keeps_unless_st keeps_lift_st
      keeps_sendResponseWithCommand assms) simp_all

lemma keeps_get_status:
  assumes "flight_only P"
  shows "keeps P (cmd_get_status env)"
  using keeps_sendResponseWithCommand[OF assms, of "\<lambda>m c. c"]
  by (simp add: keeps_def cmd_get_status_def)

lemma keeps_sync_session:
  assumes "flight_only P"
  shows "keeps P (cmd_sync_session env msg)"
proof -
  have "keeps P (\<lambda>c. then_do (call env (DatabaseGetSyncSpectrums name indices_list last_index))
          (send_spectrums (sync_rows env (trace c))) c)" for name indices_list last_index
    using keeps_then_do[OF keeps_call[OF assms] keeps_send_spectrums[OF assms]]
    by (simp add: keeps_def)
  then show ?thesis
    unfolding cmd_sync_session_def
    by (intro keeps_then_with keeps_lift)
qed

lemma keeps_dispatch:
  assumes "flight_only P" and "\<And>c. P c \<Longrightarrow> P (sessionTick c)"
  shows "keeps P (dispatch env data)"
  unfolding dispatch_def
  by (intro keeps_then_with keeps_then_do keeps_unless keeps_lift)
     (auto intro!: keeps_detector_config keeps_start_session keeps_stop_session keeps_dump_session
        keeps_get_status keeps_sync_session keeps_raise assms)

lemma keeps_report:
  assumes "flight_only P"
  shows "keeps P (report e)"
  by (cases e) (simp_all add: keeps_sendResponseWithInfo[OF assms])

lemma datagramReceived_keeps:
  assumes "flight_only P" and "\<And>c. P c \<Longrightarrow> P (sessionTick c)" and "P c"
  shows "P (datagramReceived env data a c)"
proof -
  have "P (c\<lparr>client_address := Some a\<rparr>)"
    using assms(3) by (rule flight_onlyD[OF assms(1)]) simp_all
  moreover have "keeps P (dispatch env data)"
    using assms(1,2) by (rule keeps_dispatch)
  ultimately have "P (snd (dispatch env data (c\<lparr>client_address := Some a\<rparr>)))"
    by (simp add: keeps_def)
  then show ?thesis
    using keepsD[OF keeps_report[OF assms(1)]]
    by (auto simp: datagramReceived_def split: prod.splits sum.splits)
qed

lemma keeps_on_raise_modify: "keeps_on_raise P (modify f)"
  by (simp add: keeps_on_raise_def modify_def)

lemma keeps_on_raise_then_with:
  assumes "keeps P m" and "\<And>v. keeps_on_raise P (f v)"
  shows "keeps_on_raise P (then_with m f)"
  using assms
  by (auto simp: keeps_def keeps_on_raise_def then_with_def split: prod.splits sum.splits)

lemma keeps_on_raise_then_do:
  assumes "keeps P m" and "keeps_on_raise P n"
  shows "keeps_on_raise P (then_do m n)"
  unfolding then_do_def using assms by (intro keeps_on_raise_then_with)

lemma keeps_escalation:
  assumes "flight_only P"
  shows "keeps P (\<lambda>c. if spectrum_failures c \<ge> 3
                         then then_do (stopSession (session_args c))
                                (then_do (finalizeSession env (session_args c))
                                   (sendResponseWithInfo ''error'' escalation_text)) c
                         else (Inr (), c))"
proof -
  have "keeps P (then_do (stopSession args) (then_do (finalizeSession env args)
          (sendResponseWithInfo ''error'' escalation_text)))" for args
    by (intro keeps_then_do keeps_stopSession keeps_finalizeSession keeps_sendResponseWithInfo assms)
  then show ?thesis
    by (simp add: keeps_def)
qed

lemma handleSpectrumSuccess_keeps:
  assumes "flight_only P" and "\<And>c. P c \<Longrightarrow> P (c\<lparr>spectrum_state := SpectrumState.Ready\<rparr>)"
  shows "keeps P (handleSpectrumSuccess env msg)"
proof -
  have final: "keeps P (modify (\<lambda>c. c\<lparr>spectrum_state := SpectrumState.Ready\<rparr>))"
    using assms(2) by (simp add: keeps_def modify_def)
  show ?thesis
    unfolding handleSpectrumSuccess_def
    by (intro final keeps_then_with keeps_then_do keeps_lift_st keeps_modify keeps_call_st
        keeps_sendResponse assms(1)) simp_all
qed

lemma handleSpectrumFailure_keeps:
  assumes "flight_only P" and "\<And>c. P c \<Longrightarrow> P (c\<lparr>spectrum_state := SpectrumState.Ready\<rparr>)"
  shows "keeps P (handleSpectrumFailure env err)"
proof -
  have final: "keeps P (modify (\<lambda>c. c\<lparr>spectrum_state := SpectrumState.Ready\<rparr>))"
    using assms(2) by (simp add: keeps_def modify_def)
  show ?thesis
    unfolding handleSpectrumFailure_def
    by (intro final keeps_then_do keeps_sendResponseWithInfo keeps_modify keeps_escalation assms(1)) simp_all
qed

lemma handleSpectrumSuccess_raise:
  assumes "flight_only P"
  shows "keeps_on_raise P (handleSpectrumSuccess env msg)"
  unfolding handleSpectrumSuccess_def
  by (intro keeps_on_raise_then_with keeps_on_raise_then_do keeps_on_raise_modify
      keeps_lift_st keeps_modify keeps_call_st keeps_sendResponse assms) simp_all

lemma handleSpectrumFailure_raise:
  assumes "flight_only P"
  shows "keeps_on_raise P (handleSpectrumFailure env err)"
  unfolding handleSpectrumFailure_def
  by (intro keeps_on_raise_then_do keeps_on_raise_modify
      keeps_sendResponseWithInfo keeps_modify keeps_escalation assms) simp_all

lemma flight_only_single: "flight_only single_flight"
  by (simp add: flight_only_def single_flight_def)

lemma flight_only_busy: "flight_only (\<lambda>c. spectrum_state c = SpectrumState.Busy)"
  by (simp add: flight_only_def)

lemma flight_only_count: "flight_only (\<lambda>c. in_flight c = n)"
  by (simp add: flight_only_def)

lemma sessionTick_single: "single_flight c \<Longrightarrow> single_flight (sessionTick c)"
  by (auto simp: single_flight_def sessionTick_def)

lemma sessionTick_busy: "spectrum_state (sessionTick c) = SpectrumState.Busy"
  by (cases "spectrum_state c") (simp_all add: sessionTick_def)

lemma callback_single:
  assumes "single_flight c" and "in_flight c \<noteq> 0" and "keeps (\<lambda>c. in_flight c = 0) h"
  shows "single_flight (snd (h (c\<lparr>in_flight := in_flight c - 1\<rparr>)))"
proof -
  have "in_flight (c\<lparr>in_flight := in_flight c - 1\<rparr>) = 0"
    using assms(1,2) by (simp add: single_flight_def)
  then have "in_flight (snd (h (c\<lparr>in_flight := in_flight c - 1\<rparr>))) = 0"
    using assms(3) by (simp add: keeps_def)
  then show ?thesis by (simp add: single_flight_def)
qed

lemma step_single:
  assumes "single_flight c"
  shows "single_flight (step env c i)"
proof (cases i)
  case (Datagram data a)
  then show ?thesis
    using datagramReceived_keeps[OF flight_only_single sessionTick_single assms] by simp
next
  case Tick
  then show ?thesis using assms sessionTick_single by (simp split: option.splits)
next
  case (Success msg)
  then show ?thesis
    using assms callback_single[OF assms _ handleSpectrumSuccess_keeps[OF flight_only_count]]
    by simp
next
  case (Failure err)
  then show ?thesis
    using assms callback_single[OF assms _ handleSpectrumFailure_keeps[OF flight_only_count]]
    by simp
qed

lemma run_single: "single_flight c \<Longrightarrow> single_flight (run env c inputs)"
  by (induction inputs arbitrary: c) (simp_all add: step_single)

lemma init_single: "single_flight init"
  by (simp add: single_flight_def init_def)

lemma step_ready:
  assumes "spectrum_state c = SpectrumState.Busy"
    and "spectrum_state (step env c i) = SpectrumState.Ready"
  shows "0 < in_flight c \<and>
     ((\<exists>msg. i = Success msg
         \<and> fst (handleSpectrumSuccess env msg (c\<lparr>in_flight := in_flight c - 1\<rparr>)) = Inr ())
    \<or> (\<exists>err. i = Failure err
         \<and> fst (handleSpectrumFailure env err (c\<lparr>in_flight := in_flight c - 1\<rparr>)) = Inr ()))"
proof (cases i)
  case (Datagram data a)
  have "spectrum_state (datagramReceived env data a c) = SpectrumState.Busy"
    using datagramReceived_keeps[OF flight_only_busy _ assms(1)] sessionTick_busy by simp
  then show ?thesis using assms(2) Datagram by simp
next
  case Tick
  then show ?thesis using assms sessionTick_busy[of c] by (simp split: option.splits if_splits)
next
  case (Success msg)
  let ?c = "c\<lparr>in_flight := in_flight c - 1\<rparr>"
  have pos: "0 < in_flight c" using assms Success by (cases "in_flight c = 0") simp_all
  have "\<And>e. fst (handleSpectrumSuccess env msg ?c) = Inl e
          \<Longrightarrow> spectrum_state (snd (handleSpectrumSuccess env msg ?c)) = SpectrumState.Busy"
    using handleSpectrumSuccess_raise[OF flight_only_busy, of env msg] assms(1)
    by (simp add: keeps_on_raise_def)
  then have "fst (handleSpectrumSuccess env msg ?c) = Inr ()"
    using assms(2) Success pos by (cases "fst (handleSpectrumSuccess env msg ?c)") auto
  then show ?thesis using Success pos by simp
next
  case (Failure err)
  let ?c = "c\<lparr>in_flight := in_flight c - 1\<rparr>"
  have pos: "0 < in_flight c" using assms Failure by (cases "in_flight c = 0") simp_all
  have "\<And>e. fst (handleSpectrumFailure env err ?c) = Inl e
          \<Longrightarrow> spectrum_state (snd (handleSpectrumFailure env err ?c)) = SpectrumState.Busy"
    using handleSpectrumFailure_raise[OF flight_only_busy, of env err] assms(1)
    by (simp add: keeps_on_raise_def)
  then have "fst (handleSpectrumFailure env err ?c) = Inr ()"
    using assms(2) Failure pos by (cases "fst (handleSpectrumFailure env err ?c)") auto
  then show ?thesis using Failure pos by simp
qed

section \<open>The acquisition scheduler\<close>

text \<open>
  C6. Whatever the datagrams, the ticks and the moments at which acquisitions complete,
  at most one acquisition is in flight. A tick starts an acquisition only when the
  acquisition state is Ready, and the state is Busy after it. The state goes from Busy to
  Ready only in the callback of an acquisition that was in flight, and only when
  \<^verbatim>\<open>handleSpectrumSuccess\<close> or \<^verbatim>\<open>handleSpectrumFailure\<close> has run to its end.
\<close>

theorem at_most_one_in_flight:
  "in_flight (run env init inputs) \<le> 1
   \<and> in_flight (sessionTick c) =
       (if spectrum_state c = SpectrumState.Ready then in_flight c + 1 else in_flight c)
   \<and> spectrum_state (sessionTick c) = SpectrumState.Busy
   \<and> (spectrum_state c = SpectrumState.Busy \<and> spectrum_state (step env c i) = SpectrumState.Ready
       \<longrightarrow> 0 < in_flight c \<and>
          ((\<exists>msg. i = Success msg
              \<and> fst (handleSpectrumSuccess env msg (c\<lparr>in_flight := in_flight c - 1\<rparr>)) = Inr ())
         \<or> (\<exists>err. i = Failure err
              \<and> fst (handleSpectrumFailure env err (c\<lparr>in_flight := in_flight c - 1\<rparr>)) = Inr ())))"
proof -
  have "single_flight (run env init inputs)"
    using init_single by (rule run_single)
  then have "in_flight (run env init inputs) \<le> 1"
    by (simp add: single_flight_def)
  moreover have "in_flight (sessionTick c) =
       (if spectrum_state c = SpectrumState.Ready then in_flight c + 1 else in_flight c)"
    by (simp add: sessionTick_def)
  ultimately show ?thesis
    using sessionTick_busy[of c] step_ready[of c env i] by blast
qed

theorem at_most_one_in_flight_witness:
  "in_flight (run env_ok init [Datagram (Parsed config_msg) operator,
       Datagram (Parsed start_msg) operator, Tick, Tick, Success spectrum_msg, Tick]) \<le> 1
   \<and> in_flight (sessionTick warm) = 1
   \<and> spectrum_state (sessionTick warm) = SpectrumState.Busy
   \<and> spectrum_state active = SpectrumState.Busy
   \<and> spectrum_state (step env_ok active (Success spectrum_msg)) = SpectrumState.Ready
   \<and> 0 < in_flight active
   \<and> fst (handleSpectrumSuccess env_ok spectrum_msg (active\<lparr>in_flight := in_flight active - 1\<rparr>)) = Inr ()"
proof -
  have h1: "spectrum_state active = SpectrumState.Busy" by (simp add: active_eq)
  have h2: "spectrum_state (step env_ok active (Success spectrum_msg)) = SpectrumState.Ready"
    by (simp add: active_eq handleSpectrumSuccess_def act_defs scenario_defs)
  have h3: "spectrum_state warm = SpectrumState.Ready" "in_flight warm = 0"
    by (simp_all add: warm_eq)
  show ?thesis
    using at_most_one_in_flight[of env_ok "[Datagram (Parsed config_msg) operator,
       Datagram (Parsed start_msg) operator, Tick, Tick, Success spectrum_msg, Tick]" warm]
      at_most_one_in_flight[of env_ok "[]" active "Success spectrum_msg"] h1 h2 h3
    by auto
qed

section \<open>Failures\<close>










text \<open>
  C1, as amended. \<^verbatim>\<open>handleSpectrumSuccess\<close> leaves the failure counter as it is, whether it
  runs to its end or raises, and \<^verbatim>\<open>handleSpectrumFailure\<close> adds one to it: the counter
  counts the failures since the session started, with or without successes between them.
\<close>

theorem success_keeps_failure_count:
  "spectrum_failures (snd (handleSpectrumSuccess env msg c)) = spectrum_failures c
   \<and> spectrum_failures (snd (handleSpectrumFailure env err c)) = spectrum_failures c + 1"
proof -
  have "spectrum_failures (snd (handleSpectrumSuccess env msg c)) = spectrum_failures c"
    by (simp add: handleSpectrumSuccess_def act_defs split: sum.splits option.splits)
  moreover have "spectrum_failures (snd (handleSpectrumFailure env err c)) = spectrum_failures c + 1"
    by (simp add: handleSpectrumFailure_def stopSession_def finalizeSession_def act_defs info_command
        split: sum.splits option.splits)
  ultimately show ?thesis by simp
qed

theorem success_keeps_failure_count_witness:
  "spectrum_failures (snd (handleSpectrumSuccess env_ok spectrum_msg active)) = 0
   \<and> spectrum_failures (snd (handleSpectrumFailure env_ok ''e1'' active)) = 1"
  using success_keeps_failure_count[of env_ok spectrum_msg active "''e1''"]
  by (simp add: active_eq)

text \<open>
  C1 as stated fails: in the active session, after a failure and then a success that runs
  to its end, the counter is 1, and two more failures stop the session.
\<close>

theorem success_does_not_reset_counterexample:
  "fst (handleSpectrumSuccess env_ok spectrum_msg
          ((run env_ok active [Failure ''e1'', Tick])\<lparr>in_flight := 0\<rparr>)) = Inr ()
   \<and> spectrum_failures (snd (handleSpectrumSuccess env_ok spectrum_msg
          ((run env_ok active [Failure ''e1'', Tick])\<lparr>in_flight := 0\<rparr>))) = 1
   \<and> spectrum_failures (run env_ok active [Failure ''e1'', Tick, Success spectrum_msg]) = 1
   \<and> session_state (run env_ok active
        [Failure ''e1'', Tick, Success spectrum_msg, Tick, Failure ''e2'', Tick, Failure ''e3''])
       = SessionState.Ready
   \<and> last (trace (run env_ok active
        [Failure ''e1'', Tick, Success spectrum_msg, Tick, Failure ''e2'', Tick, Failure ''e3'']))
       = TransportWrite operator (info ''error'' escalation_text)"
  by (simp add: active_eq cmd_defs act_defs scenario_defs info_def)

section \<open>Results that arrive after the session has ended\<close>

text \<open>
  C5, as amended. There is no guard: a result that arrives when the handle is already
  \<^verbatim>\<open>None\<close> is given the current spectrum index, the index is incremented, and
  \<^verbatim>\<open>database.insertSpectrum\<close> is called with \<^verbatim>\<open>None\<close> as the handle.
\<close>

theorem late_result_is_applied:
  assumes "database_connection c = None"
  shows "spectrum_index (snd (handleSpectrumSuccess env (JObj d) c)) = spectrum_index c + 1
     \<and> take (Suc (length (trace c))) (trace (snd (handleSpectrumSuccess env (JObj d) c))) =
         trace c @ [DatabaseInsertSpectrum None (JObj (AList.update ''index'' (JInt (spectrum_index c)) d))]"
  using assms
  by (simp add: handleSpectrumSuccess_def act_defs split: sum.splits option.splits)

theorem late_result_is_applied_witness:
  "database_connection stopped = None
   \<and> spectrum_index (snd (handleSpectrumSuccess env_ok spectrum_msg stopped)) = 1
   \<and> take (Suc (length (trace stopped))) (trace (snd (handleSpectrumSuccess env_ok spectrum_msg stopped))) =
         trace stopped @ [DatabaseInsertSpectrum None
            (JObj [(''command'', JStr ''spectrum''), (''total_count'', JInt 10), (''index'', JInt 0)])]"
proof -
  have h: "database_connection stopped = None" by (simp add: stopped_eq)
  have i: "spectrum_index stopped = 0" by (simp add: stopped_eq active_eq)
  show ?thesis
    using late_result_is_applied[OF h, of env_ok "[(''command'', JStr ''spectrum''), (''total_count'', JInt 10)]"] h i
    by (simp add: spectrum_msg_def)
qed

text \<open>
  C5 as stated fails: the operator stops the session while its first acquisition is in
  flight; when the result arrives, it is inserted with the handle \<^verbatim>\<open>None\<close>, sent to the
  operator, and the spectrum index goes from 0 to 1.
\<close>

theorem late_result_counterexample:
  "database_connection stopped = None \<and> session_state stopped = SessionState.Ready
   \<and> in_flight stopped = 1 \<and> spectrum_index stopped = 0
   \<and> step env_ok stopped (Success spectrum_msg) =
       stopped\<lparr>in_flight := 0, spectrum_index := 1, spectrum_state := SpectrumState.Ready,
         trace := trace stopped @
           [DatabaseInsertSpectrum None
              (JObj [(''command'', JStr ''spectrum''), (''total_count'', JInt 10), (''index'', JInt 0)]),
            TransportWrite operator
              (JObj [(''command'', JStr ''spectrum''), (''total_count'', JInt 10), (''index'', JInt 0)])]\<rparr>"
  by (simp add: stopped_eq active_eq handleSpectrumSuccess_def act_defs scenario_defs)

end
